theory Spec2Isabelle
  imports Main "HOL-Library.Word"
begin

section \<open>Scoped resource wrappers of \<^verbatim>\<open>src/utils/Scoped.h\<close>\<close>

text \<open>
  The header declares a family of small classes, each binding one resource to the scope
  of a variable: the constructor takes the resource, the destructor hands it to the
  release primitive of its kind.  The classes are embedded as records with the fields of
  the source, their member functions as functions that pass the wrapper and a
  \<open>world\<close> explicitly.  The world keeps, in program order, every call of a primitive
  that lives outside the header and every assignment a member function makes to the
  wrapper's field.
\<close>

subsection \<open>Values of the platform\<close>

type_synonym ptr = nat
  \<comment> \<open>an address held in a \<^verbatim>\<open>T*\<close>; address 0 is the null pointer\<close>

abbreviation nullptr :: ptr where
  "nullptr \<equiv> 0"

type_synonym HANDLE = "64 word"
  \<comment> \<open>\<^verbatim>\<open>HANDLE\<close>, \<^verbatim>\<open>HDC\<close>, \<^verbatim>\<open>HGDIOBJ\<close>, \<^verbatim>\<open>HFONT\<close>, ...: opaque pointer-sized values\<close>

abbreviation NULL :: HANDLE where
  "NULL \<equiv> 0"

definition INVALID_HANDLE_VALUE :: HANDLE where
  \<comment> \<open>the platform's \<^verbatim>\<open>((HANDLE)(LONG_PTR)-1)\<close>\<close>
  "INVALID_HANDLE_VALUE = - 1"

type_synonym ULONG_PTR = "64 word"

type_synonym CLSID = "128 word"

type_synonym HRESULT = "32 word"
  \<comment> \<open>a signed 32-bit status; negative values are failures\<close>

definition SUCCEEDED :: "HRESULT \<Rightarrow> bool" where
  \<comment> \<open>the platform's \<^verbatim>\<open>(((HRESULT)(hr)) >= 0)\<close>\<close>
  "SUCCEEDED hr = (0 \<le> sint hr)"

definition FAILED :: "HRESULT \<Rightarrow> bool" where
  \<comment> \<open>the platform's \<^verbatim>\<open>(((HRESULT)(hr)) < 0)\<close>\<close>
  "FAILED hr = (sint hr < 0)"

subsection \<open>The world outside the header\<close>

datatype event =
    Call_free ptr
  | Call_delete ptr
  | Call_Dup ptr
  | Call_EnterCriticalSection ptr
  | Call_LeaveCriticalSection ptr
  | Call_CloseHandle HANDLE
  | Call_Release ptr
  | Call_QueryInterface ptr
  | Call_CoCreateInstance CLSID
  | Call_DeleteObject HANDLE
  | Call_DeleteDC HANDLE
  | Call_SelectObject HANDLE HANDLE
  | Call_CoInitialize
  | Call_CoUninitialize
  | Call_OleInitialize
  | Call_OleUninitialize
  | Call_GdiplusStartup bool
  | Call_NotificationHook
  | Call_NotificationUnhook ULONG_PTR
  | Call_GdiplusShutdown ULONG_PTR
  | Store ptr

text \<open>
  \<open>Call_f a\<close> is one call of the primitive \<open>f\<close> on the argument \<open>a\<close>; for a member call
  \<^verbatim>\<open>p->Release()\<close> or \<^verbatim>\<open>unk->QueryInterface(&ptr)\<close> the argument is the object
  pointer.  \<open>Call_delete p\<close> is the destruction of the object at \<open>p\<close> by a
  \<^verbatim>\<open>delete\<close> expression.  \<open>Store v\<close> is an assignment \<^verbatim>\<open>ptr = v\<close> (or \<^verbatim>\<open>obj = v\<close>) that a member
  function of an already constructed wrapper makes to its field.
\<close>

record world =
  trace :: "event list"
  mem :: "(ptr \<times> string) list"
  selected :: "HANDLE \<Rightarrow> HANDLE"

text \<open>
  \<open>trace\<close> is the history of events, oldest first.  \<open>mem\<close> lists the text buffers that
  can be read, each with its address and its text.  \<open>selected w hdc\<close> is the object
  currently selected into the device context \<open>hdc\<close>.
\<close>

definition world0 :: world where
  "world0 = \<lparr>trace = [], mem = [], selected = (\<lambda>_. NULL)\<rparr>"

datatype fault = NullDereference | AssertionFailure | InvalidRead

text \<open>
  What the primitives return is not decided by the header.  The record \<open>platform\<close>
  supplies it: the status and the pointer left in the output slot by an interface query
  and by an instantiation, whether a tripped \<^verbatim>\<open>CrashIf\<close> ends the program, and the
  tokens handed out by the graphics runtime.
\<close>

record platform =
  QueryInterface_out :: "ptr \<Rightarrow> HRESULT \<times> ptr"
  CoCreateInstance_out :: "CLSID \<Rightarrow> HRESULT \<times> ptr"
  CrashIf_fatal :: bool
  GdiplusStartup_token :: ULONG_PTR
  NotificationHook_token :: ULONG_PTR

definition call :: "event \<Rightarrow> world \<Rightarrow> world" where
  "call e w = w\<lparr>trace := trace w @ [e]\<rparr>"

text \<open>
  Modelled from the spec: \<^verbatim>\<open>free\<close> is the allocator's primitive, outside the
  repository.  The specification gives its contract as \<^verbatim>\<open>free(buffer|null)\<close>, a
  no-op on null: the call is recorded, and a buffer at the address stops being readable.
\<close>

definition free :: "ptr \<Rightarrow> world \<Rightarrow> world" where
  "free p w =
     call (Call_free p)
       (if p = nullptr then w else w\<lparr>mem := filter (\<lambda>b. fst b \<noteq> p) (mem w)\<rparr>)"

definition delete_obj :: "ptr \<Rightarrow> world \<Rightarrow> world" where
  \<comment> \<open>the expression \<^verbatim>\<open>delete p\<close>: on a null operand it invokes nothing, neither a
      destructor nor a deallocation\<close>
  "delete_obj p w = (if p = nullptr then w else call (Call_delete p) w)"

definition fresh :: "(ptr \<times> string) list \<Rightarrow> ptr" where
  \<comment> \<open>an address that is neither null nor in use\<close>
  "fresh m = Suc (fold max (map fst m) 0)"

text \<open>
  Modelled from the spec: \<^verbatim>\<open>str::Dup\<close> is defined in the string utilities of the
  repository, not in this header.  The specification gives its contract as
  \<^verbatim>\<open>duplicate(borrowedText) -> newOwnedCopy\<close>: it reads the text at the given address
  and returns a newly allocated buffer holding the same text.  Reading an address that
  holds no readable text is a fault.
\<close>

definition Dup :: "ptr \<Rightarrow> world \<Rightarrow> fault + ptr \<times> world" where
  "Dup s w =
     (case map_of (mem w) s of
        None \<Rightarrow> Inl InvalidRead
      | Some str \<Rightarrow>
          let q = fresh (mem w)
          in Inr (q, call (Call_Dup s) (w\<lparr>mem := (q, str) # mem w\<rparr>)))"

text \<open>
  Modelled from the spec: \<^verbatim>\<open>SelectObject\<close> is a primitive of the graphics subsystem.
  The specification gives its contract as
  \<^verbatim>\<open>select(context, object) -> previousObject\<close>: the object becomes the selected one
  of the context and the one selected before is returned.
\<close>

definition SelectObject :: "HANDLE \<Rightarrow> HANDLE \<Rightarrow> world \<Rightarrow> HANDLE \<times> world" where
  "SelectObject hdc obj w =
     (selected w hdc,
      call (Call_SelectObject hdc obj) (w\<lparr>selected := (selected w)(hdc := obj)\<rparr>))"

text \<open>
  \<^verbatim>\<open>CrashIf\<close> is a macro of the repository that this header uses and does not define.
  It is the assertion of the code base; whether a tripped assertion ends the program is
  a parameter of the platform.
\<close>

definition CrashIf :: "platform \<Rightarrow> bool \<Rightarrow> fault + unit" where
  "CrashIf pf cond = (if cond \<and> CrashIf_fatal pf then Inl AssertionFailure else Inr ())"

subsection \<open>\<^verbatim>\<open>ScopedMem<T>\<close>\<close>

record ScopedMem =
  ptr :: ptr

definition ScopedMem_default :: ScopedMem where
  \<comment> \<open>\<^verbatim>\<open>ScopedMem() : ptr(nullptr) {}\<close>\<close>
  "ScopedMem_default = \<lparr>ScopedMem.ptr = nullptr\<rparr>"

definition ScopedMem_ctor :: "ptr \<Rightarrow> ScopedMem" where
  \<comment> \<open>\<^verbatim>\<open>explicit ScopedMem(T* ptr) : ptr(ptr) {}\<close>\<close>
  "ScopedMem_ctor p = \<lparr>ScopedMem.ptr = p\<rparr>"

definition ScopedMem_dtor :: "ScopedMem \<Rightarrow> world \<Rightarrow> world" where
  \<comment> \<open>\<^verbatim>\<open>~ScopedMem() { free(ptr); }\<close>\<close>
  "ScopedMem_dtor m w = free (ScopedMem.ptr m) w"

definition ScopedMem_Set :: "ScopedMem \<Rightarrow> ptr \<Rightarrow> world \<Rightarrow> ScopedMem \<times> world" where
  \<comment> \<open>\<^verbatim>\<open>void Set(T* newPtr) { free(ptr); ptr = newPtr; }\<close>\<close>
  "ScopedMem_Set m newPtr w =
     (let w1 = free (ScopedMem.ptr m) w;
          m1 = m\<lparr>ScopedMem.ptr := newPtr\<rparr>;
          w2 = call (Store newPtr) w1
      in (m1, w2))"

definition ScopedMem_Get :: "ScopedMem \<Rightarrow> ptr" where
  \<comment> \<open>\<^verbatim>\<open>T* Get() const { return ptr; }\<close>\<close>
  "ScopedMem_Get m = ScopedMem.ptr m"

definition ScopedMem_StealData :: "ScopedMem \<Rightarrow> world \<Rightarrow> ptr \<times> ScopedMem \<times> world" where
  \<comment> \<open>\<^verbatim>\<open>T* StealData() { T* tmp = ptr; ptr = nullptr; return tmp; }\<close>\<close>
  "ScopedMem_StealData m w =
     (let tmp = ScopedMem.ptr m;
          m1 = m\<lparr>ScopedMem.ptr := nullptr\<rparr>;
          w1 = call (Store nullptr) w
      in (tmp, m1, w1))"

subsection \<open>\<^verbatim>\<open>ScopedPtr<T>\<close>\<close>

record ScopedPtr =
  obj :: ptr

definition ScopedPtr_default :: ScopedPtr where
  \<comment> \<open>\<^verbatim>\<open>ScopedPtr() : obj(nullptr) {}\<close>\<close>
  "ScopedPtr_default = \<lparr>ScopedPtr.obj = nullptr\<rparr>"

definition ScopedPtr_ctor :: "ptr \<Rightarrow> ScopedPtr" where
  \<comment> \<open>\<^verbatim>\<open>explicit ScopedPtr(T* obj) : obj(obj) {}\<close>\<close>
  "ScopedPtr_ctor p = \<lparr>ScopedPtr.obj = p\<rparr>"

definition ScopedPtr_dtor :: "ScopedPtr \<Rightarrow> world \<Rightarrow> world" where
  \<comment> \<open>\<^verbatim>\<open>~ScopedPtr() { delete obj; }\<close>\<close>
  "ScopedPtr_dtor s w = delete_obj (ScopedPtr.obj s) w"

definition ScopedPtr_Detach :: "ScopedPtr \<Rightarrow> world \<Rightarrow> ptr \<times> ScopedPtr \<times> world" where
  \<comment> \<open>\<^verbatim>\<open>T* Detach() { T* tmp = obj; obj = nullptr; return tmp; }\<close>\<close>
  "ScopedPtr_Detach s w =
     (let tmp = ScopedPtr.obj s;
          s1 = s\<lparr>ScopedPtr.obj := nullptr\<rparr>;
          w1 = call (Store nullptr) w
      in (tmp, s1, w1))"

definition ScopedPtr_assign :: "ScopedPtr \<Rightarrow> ptr \<Rightarrow> world \<Rightarrow> ptr \<times> ScopedPtr \<times> world" where
  \<comment> \<open>\<^verbatim>\<open>T* operator=(T* newObj) { delete obj; return (obj = newObj); }\<close>\<close>
  "ScopedPtr_assign s newObj w =
     (let w1 = delete_obj (ScopedPtr.obj s) w;
          s1 = s\<lparr>ScopedPtr.obj := newObj\<rparr>;
          w2 = call (Store newObj) w1
      in (ScopedPtr.obj s1, s1, w2))"

subsection \<open>\<^verbatim>\<open>AutoFreeStr<T>\<close>, derived from \<^verbatim>\<open>ScopedMem<T>\<close>\<close>

type_synonym AutoFreeStr = ScopedMem
  \<comment> \<open>the derived class adds no field and inherits destructor, \<^verbatim>\<open>Set\<close> and \<^verbatim>\<open>StealData\<close>\<close>

definition AutoFreeStr_default :: AutoFreeStr where
  \<comment> \<open>\<^verbatim>\<open>AutoFreeStr() { this->ptr = nullptr; }\<close>, after the base constructor\<close>
  "AutoFreeStr_default = ScopedMem_default\<lparr>ScopedMem.ptr := nullptr\<rparr>"

definition AutoFreeStr_ctor :: "ptr \<Rightarrow> AutoFreeStr" where
  \<comment> \<open>\<^verbatim>\<open>explicit AutoFreeStr(T* ptr) { this->ptr = ptr; }\<close>, after the base constructor\<close>
  "AutoFreeStr_ctor p = ScopedMem_default\<lparr>ScopedMem.ptr := p\<rparr>"

definition AutoFreeStr_SetCopy :: "AutoFreeStr \<Rightarrow> ptr \<Rightarrow> world \<Rightarrow> fault + AutoFreeStr \<times> world" where
  \<comment> \<open>\<^verbatim>\<open>free(this->ptr); this->ptr = nullptr; if (newPtr) { this->ptr = str::Dup(newPtr); }\<close>\<close>
  "AutoFreeStr_SetCopy a newPtr w =
     (let w1 = free (ScopedMem.ptr a) w;
          a1 = a\<lparr>ScopedMem.ptr := nullptr\<rparr>;
          w2 = call (Store nullptr) w1
      in if newPtr \<noteq> nullptr
         then (case Dup newPtr w2 of
                 Inl f \<Rightarrow> Inl f
               | Inr (q, w3) \<Rightarrow> Inr (a1\<lparr>ScopedMem.ptr := q\<rparr>, call (Store q) w3))
         else Inr (a1, w2))"

subsection \<open>\<^verbatim>\<open>ScopedCritSec\<close>\<close>

record ScopedCritSec =
  cs :: ptr

definition ScopedCritSec_ctor :: "ptr \<Rightarrow> world \<Rightarrow> ScopedCritSec \<times> world" where
  \<comment> \<open>\<^verbatim>\<open>explicit ScopedCritSec(CRITICAL_SECTION* cs) : cs(cs) { EnterCriticalSection(cs); }\<close>\<close>
  "ScopedCritSec_ctor c w = (\<lparr>ScopedCritSec.cs = c\<rparr>, call (Call_EnterCriticalSection c) w)"

definition ScopedCritSec_dtor :: "ScopedCritSec \<Rightarrow> world \<Rightarrow> world" where
  \<comment> \<open>\<^verbatim>\<open>~ScopedCritSec() { LeaveCriticalSection(cs); }\<close>\<close>
  "ScopedCritSec_dtor g w = call (Call_LeaveCriticalSection (ScopedCritSec.cs g)) w"

subsection \<open>\<^verbatim>\<open>ScopedHandle\<close>\<close>

record ScopedHandle =
  handle :: HANDLE

definition ScopedHandle_ctor :: "HANDLE \<Rightarrow> ScopedHandle" where
  \<comment> \<open>\<^verbatim>\<open>explicit ScopedHandle(HANDLE handle) : handle(handle) {}\<close>\<close>
  "ScopedHandle_ctor h = \<lparr>ScopedHandle.handle = h\<rparr>"

definition ScopedHandle_dtor :: "ScopedHandle \<Rightarrow> world \<Rightarrow> world" where
  \<comment> \<open>\<^verbatim>\<open>~ScopedHandle() { CloseHandle(handle); }\<close>\<close>
  "ScopedHandle_dtor s w = call (Call_CloseHandle (ScopedHandle.handle s)) w"

definition ScopedHandle_IsValid :: "ScopedHandle \<Rightarrow> bool" where
  \<comment> \<open>\<^verbatim>\<open>return handle != NULL && handle != INVALID_HANDLE_VALUE;\<close>\<close>
  "ScopedHandle_IsValid s =
     (ScopedHandle.handle s \<noteq> NULL \<and> ScopedHandle.handle s \<noteq> INVALID_HANDLE_VALUE)"

subsection \<open>\<^verbatim>\<open>ScopedComPtr<T>\<close>\<close>

record ScopedComPtr =
  ptr :: ptr

definition ScopedComPtr_default :: ScopedComPtr where
  \<comment> \<open>\<^verbatim>\<open>ScopedComPtr() : ptr(nullptr) {}\<close>\<close>
  "ScopedComPtr_default = \<lparr>ScopedComPtr.ptr = nullptr\<rparr>"

definition ScopedComPtr_ctor :: "ptr \<Rightarrow> ScopedComPtr" where
  \<comment> \<open>\<^verbatim>\<open>explicit ScopedComPtr(T* ptr) : ptr(ptr) {}\<close>\<close>
  "ScopedComPtr_ctor p = \<lparr>ScopedComPtr.ptr = p\<rparr>"

definition ScopedComPtr_dtor :: "ScopedComPtr \<Rightarrow> world \<Rightarrow> world" where
  \<comment> \<open>\<^verbatim>\<open>~ScopedComPtr() { if (ptr) ptr->Release(); }\<close>\<close>
  "ScopedComPtr_dtor c w =
     (if ScopedComPtr.ptr c \<noteq> nullptr then call (Call_Release (ScopedComPtr.ptr c)) w else w)"

definition ScopedComPtr_Create ::
  "platform \<Rightarrow> ScopedComPtr \<Rightarrow> CLSID \<Rightarrow> world \<Rightarrow> fault + bool \<times> ScopedComPtr \<times> world" where
  \<comment> \<open>\<^verbatim>\<open>CrashIf(ptr); if (ptr) return false;
      HRESULT hr = CoCreateInstance(clsid, nullptr, CLSCTX_ALL, IID_PPV_ARGS(&ptr));
      return SUCCEEDED(hr);\<close>  The callee writes the slot \<^verbatim>\<open>ptr\<close> through its address.\<close>
  "ScopedComPtr_Create pf c clsid w =
     (case CrashIf pf (ScopedComPtr.ptr c \<noteq> nullptr) of
        Inl f \<Rightarrow> Inl f
      | Inr _ \<Rightarrow>
          if ScopedComPtr.ptr c \<noteq> nullptr then Inr (False, c, w)
          else (case CoCreateInstance_out pf clsid of
                  (hr, v) \<Rightarrow>
                    Inr (SUCCEEDED hr, c\<lparr>ScopedComPtr.ptr := v\<rparr>,
                         call (Call_CoCreateInstance clsid) w)))"

definition ScopedComPtr_assign ::
  "ScopedComPtr \<Rightarrow> ptr \<Rightarrow> world \<Rightarrow> ptr \<times> ScopedComPtr \<times> world" where
  \<comment> \<open>\<^verbatim>\<open>T* operator=(T* newPtr) { if (ptr) ptr->Release(); return (ptr = newPtr); }\<close>\<close>
  "ScopedComPtr_assign c newPtr w =
     (let w1 = (if ScopedComPtr.ptr c \<noteq> nullptr
                then call (Call_Release (ScopedComPtr.ptr c)) w else w);
          c1 = c\<lparr>ScopedComPtr.ptr := newPtr\<rparr>;
          w2 = call (Store newPtr) w1
      in (ScopedComPtr.ptr c1, c1, w2))"

subsection \<open>\<^verbatim>\<open>ScopedComQIPtr<T>\<close>\<close>

record ScopedComQIPtr =
  ptr :: ptr

definition ScopedComQIPtr_default :: ScopedComQIPtr where
  \<comment> \<open>\<^verbatim>\<open>ScopedComQIPtr() : ptr(nullptr) {}\<close>\<close>
  "ScopedComQIPtr_default = \<lparr>ScopedComQIPtr.ptr = nullptr\<rparr>"

definition ScopedComQIPtr_ctor ::
  "platform \<Rightarrow> ptr \<Rightarrow> world \<Rightarrow> fault + ScopedComQIPtr \<times> world" where
  \<comment> \<open>\<^verbatim>\<open>explicit ScopedComQIPtr(IUnknown* unk) {
        HRESULT hr = unk->QueryInterface(&ptr);
        if (FAILED(hr)) ptr = nullptr; }\<close>
      The member call goes through \<^verbatim>\<open>unk\<close>: on a null pointer it is a fault.\<close>
  "ScopedComQIPtr_ctor pf unk w =
     (if unk = nullptr then Inl NullDereference
      else (case QueryInterface_out pf unk of
              (hr, v) \<Rightarrow>
                let w1 = call (Call_QueryInterface unk) w;
                    q = \<lparr>ScopedComQIPtr.ptr = v\<rparr>
                in if FAILED hr then Inr (q\<lparr>ScopedComQIPtr.ptr := nullptr\<rparr>, w1)
                   else Inr (q, w1)))"

definition ScopedComQIPtr_dtor :: "ScopedComQIPtr \<Rightarrow> world \<Rightarrow> world" where
  \<comment> \<open>\<^verbatim>\<open>~ScopedComQIPtr() { if (ptr) ptr->Release(); }\<close>\<close>
  "ScopedComQIPtr_dtor q w =
     (if ScopedComQIPtr.ptr q \<noteq> nullptr
      then call (Call_Release (ScopedComQIPtr.ptr q)) w else w)"

definition ScopedComQIPtr_Create ::
  "platform \<Rightarrow> ScopedComQIPtr \<Rightarrow> CLSID \<Rightarrow> world \<Rightarrow> fault + bool \<times> ScopedComQIPtr \<times> world" where
  \<comment> \<open>the same body as \<^verbatim>\<open>ScopedComPtr::Create\<close>\<close>
  "ScopedComQIPtr_Create pf q clsid w =
     (case CrashIf pf (ScopedComQIPtr.ptr q \<noteq> nullptr) of
        Inl f \<Rightarrow> Inl f
      | Inr _ \<Rightarrow>
          if ScopedComQIPtr.ptr q \<noteq> nullptr then Inr (False, q, w)
          else (case CoCreateInstance_out pf clsid of
                  (hr, v) \<Rightarrow>
                    Inr (SUCCEEDED hr, q\<lparr>ScopedComQIPtr.ptr := v\<rparr>,
                         call (Call_CoCreateInstance clsid) w)))"

definition ScopedComQIPtr_assign_unk ::
  "platform \<Rightarrow> ScopedComQIPtr \<Rightarrow> ptr \<Rightarrow> world \<Rightarrow> fault + ptr \<times> ScopedComQIPtr \<times> world" where
  \<comment> \<open>\<^verbatim>\<open>T* operator=(IUnknown* newUnk) {
        if (ptr) ptr->Release();
        HRESULT hr = newUnk->QueryInterface(&ptr);
        if (FAILED(hr)) ptr = nullptr;
        return ptr; }\<close>\<close>
  "ScopedComQIPtr_assign_unk pf q newUnk w =
     (let w1 = (if ScopedComQIPtr.ptr q \<noteq> nullptr
                then call (Call_Release (ScopedComQIPtr.ptr q)) w else w)
      in if newUnk = nullptr then Inl NullDereference
         else (case QueryInterface_out pf newUnk of
                 (hr, v) \<Rightarrow>
                   let w2 = call (Call_QueryInterface newUnk) w1;
                       q1 = q\<lparr>ScopedComQIPtr.ptr := v\<rparr>
                   in if FAILED hr
                      then Inr (nullptr, q1\<lparr>ScopedComQIPtr.ptr := nullptr\<rparr>,
                                call (Store nullptr) w2)
                      else Inr (ScopedComQIPtr.ptr q1, q1, w2)))"

definition ScopedComQIPtr_assign ::
  "ScopedComQIPtr \<Rightarrow> ptr \<Rightarrow> world \<Rightarrow> ptr \<times> ScopedComQIPtr \<times> world" where
  \<comment> \<open>\<^verbatim>\<open>T* operator=(T* newPtr) { if (ptr) ptr->Release(); return (ptr = newPtr); }\<close>\<close>
  "ScopedComQIPtr_assign q newPtr w =
     (let w1 = (if ScopedComQIPtr.ptr q \<noteq> nullptr
                then call (Call_Release (ScopedComQIPtr.ptr q)) w else w);
          q1 = q\<lparr>ScopedComQIPtr.ptr := newPtr\<rparr>;
          w2 = call (Store newPtr) w1
      in (ScopedComQIPtr.ptr q1, q1, w2))"

subsection \<open>\<^verbatim>\<open>ScopedGdiObj<T>\<close> and \<^verbatim>\<open>ScopedHDC\<close>\<close>

record ScopedGdiObj =
  obj :: HANDLE

definition ScopedGdiObj_ctor :: "HANDLE \<Rightarrow> ScopedGdiObj" where
  \<comment> \<open>\<^verbatim>\<open>explicit ScopedGdiObj(T obj) : obj(obj) {}\<close>\<close>
  "ScopedGdiObj_ctor h = \<lparr>ScopedGdiObj.obj = h\<rparr>"

definition ScopedGdiObj_dtor :: "ScopedGdiObj \<Rightarrow> world \<Rightarrow> world" where
  \<comment> \<open>\<^verbatim>\<open>~ScopedGdiObj() { DeleteObject(obj); }\<close>\<close>
  "ScopedGdiObj_dtor g w = call (Call_DeleteObject (ScopedGdiObj.obj g)) w"

record ScopedHDC =
  hdc :: HANDLE

definition ScopedHDC_ctor :: "HANDLE \<Rightarrow> ScopedHDC" where
  \<comment> \<open>\<^verbatim>\<open>explicit ScopedHDC(HDC hdc) : hdc(hdc) {}\<close>\<close>
  "ScopedHDC_ctor h = \<lparr>ScopedHDC.hdc = h\<rparr>"

definition ScopedHDC_dtor :: "ScopedHDC \<Rightarrow> world \<Rightarrow> world" where
  \<comment> \<open>\<^verbatim>\<open>~ScopedHDC() { DeleteDC(hdc); }\<close>\<close>
  "ScopedHDC_dtor d w = call (Call_DeleteDC (ScopedHDC.hdc d)) w"

subsection \<open>\<^verbatim>\<open>ScopedHdcSelect\<close>\<close>

record ScopedHdcSelect =
  hdc :: HANDLE
  prev :: HANDLE

definition ScopedHdcSelect_ctor :: "HANDLE \<Rightarrow> HANDLE \<Rightarrow> world \<Rightarrow> ScopedHdcSelect \<times> world" where
  \<comment> \<open>\<^verbatim>\<open>ScopedHdcSelect(HDC hdc, HGDIOBJ obj) : hdc(hdc) { prev = SelectObject(hdc, obj); }\<close>\<close>
  "ScopedHdcSelect_ctor h gobj w =
     (case SelectObject h gobj w of
        (p, w1) \<Rightarrow> (\<lparr>ScopedHdcSelect.hdc = h, prev = p\<rparr>, w1))"

definition ScopedHdcSelect_dtor :: "ScopedHdcSelect \<Rightarrow> world \<Rightarrow> world" where
  \<comment> \<open>\<^verbatim>\<open>~ScopedHdcSelect() { SelectObject(hdc, prev); }\<close>\<close>
  "ScopedHdcSelect_dtor g w = snd (SelectObject (ScopedHdcSelect.hdc g) (prev g) w)"

subsection \<open>\<^verbatim>\<open>ScopedCom\<close>, \<^verbatim>\<open>ScopedOle\<close> and \<^verbatim>\<open>ScopedGdiPlus\<close>\<close>

definition ScopedCom_ctor :: "world \<Rightarrow> world" where
  \<comment> \<open>\<^verbatim>\<open>ScopedCom() { (void)CoInitialize(nullptr); }\<close>\<close>
  "ScopedCom_ctor w = call Call_CoInitialize w"

definition ScopedCom_dtor :: "world \<Rightarrow> world" where
  \<comment> \<open>\<^verbatim>\<open>~ScopedCom() { CoUninitialize(); }\<close>\<close>
  "ScopedCom_dtor w = call Call_CoUninitialize w"

definition ScopedOle_ctor :: "world \<Rightarrow> world" where
  \<comment> \<open>\<^verbatim>\<open>ScopedOle() { (void)OleInitialize(nullptr); }\<close>\<close>
  "ScopedOle_ctor w = call Call_OleInitialize w"

definition ScopedOle_dtor :: "world \<Rightarrow> world" where
  \<comment> \<open>\<^verbatim>\<open>~ScopedOle() { OleUninitialize(); }\<close>\<close>
  "ScopedOle_dtor w = call Call_OleUninitialize w"

record ScopedGdiPlus =
  token :: ULONG_PTR
  hookToken :: ULONG_PTR
  noBgThread :: bool

definition ScopedGdiPlus_ctor ::
  "platform \<Rightarrow> ULONG_PTR \<Rightarrow> bool \<Rightarrow> world \<Rightarrow> ScopedGdiPlus \<times> world" where
  \<comment> \<open>\<^verbatim>\<open>explicit ScopedGdiPlus(bool inWinMain = false) : noBgThread(inWinMain) {
        si.SuppressBackgroundThread = noBgThread;
        Gdiplus::GdiplusStartup(&token, &si, &so);
        if (noBgThread) so.NotificationHook(&hookToken); }\<close>
      \<open>junk\<close> is what the member \<^verbatim>\<open>hookToken\<close> holds when nothing initialises it.\<close>
  "ScopedGdiPlus_ctor pf junk inWinMain w =
     (let g = \<lparr>token = GdiplusStartup_token pf, hookToken = junk, noBgThread = inWinMain\<rparr>;
          w1 = call (Call_GdiplusStartup (noBgThread g)) w
      in if noBgThread g
         then (g\<lparr>hookToken := NotificationHook_token pf\<rparr>, call Call_NotificationHook w1)
         else (g, w1))"

definition ScopedGdiPlus_dtor :: "ScopedGdiPlus \<Rightarrow> world \<Rightarrow> world" where
  \<comment> \<open>\<^verbatim>\<open>~ScopedGdiPlus() {
        if (noBgThread) so.NotificationUnhook(hookToken);
        Gdiplus::GdiplusShutdown(token); }\<close>\<close>
  "ScopedGdiPlus_dtor g w =
     (let w1 = (if noBgThread g then call (Call_NotificationUnhook (hookToken g)) w else w)
      in call (Call_GdiplusShutdown (token g)) w1)"

subsection \<open>Concrete platforms\<close>

definition E_NOINTERFACE :: HRESULT where
  "E_NOINTERFACE = 0x80004002"

text \<open>
  Platforms to run the wrappers on.  On \<open>platform_ok\<close> and \<open>platform_failing\<close> every
  interface query fails and leaves a stale pointer in the slot, and a tripped
  \<^verbatim>\<open>CrashIf\<close> ends the program; on \<open>platform_ok\<close> every instantiation succeeds with
  the object at address 11, on \<open>platform_failing\<close> every instantiation fails and nulls
  the slot.  \<open>platform_querying\<close> differs from \<open>platform_ok\<close> in that every query
  succeeds, with the interface at address 9.  \<open>platform_lenient\<close> differs from
  \<open>platform_ok\<close> in that a tripped \<^verbatim>\<open>CrashIf\<close> returns.
\<close>

definition platform_ok :: platform where
  "platform_ok =
     \<lparr>QueryInterface_out = (\<lambda>_. (E_NOINTERFACE, 9)),
      CoCreateInstance_out = (\<lambda>_. (0, 11)),
      CrashIf_fatal = True,
      GdiplusStartup_token = 1,
      NotificationHook_token = 2\<rparr>"

definition platform_querying :: platform where
  "platform_querying = platform_ok\<lparr>QueryInterface_out := (\<lambda>_. (0, 9))\<rparr>"

definition platform_lenient :: platform where
  "platform_lenient = platform_ok\<lparr>CrashIf_fatal := False\<rparr>"

definition platform_failing :: platform where
  "platform_failing =
     \<lparr>QueryInterface_out = (\<lambda>_. (E_NOINTERFACE, 9)),
      CoCreateInstance_out = (\<lambda>_. (E_NOINTERFACE, nullptr)),
      CrashIf_fatal = True,
      GdiplusStartup_token = 1,
      NotificationHook_token = 2\<rparr>"

section \<open>Properties\<close>

subsection \<open>Reading the world\<close>

lemma trace_call: "trace (call e w) = trace w @ [e]"
  by (simp add: call_def)

lemma mem_call: "mem (call e w) = mem w"
  by (simp add: call_def)

lemma selected_call: "selected (call e w) = selected w"
  by (simp add: call_def)

lemma trace_free: "trace (free p w) = trace w @ [Call_free p]"
  by (simp add: free_def trace_call)

lemma mem_free:
  "mem (free p w) = (if p = nullptr then mem w else filter (\<lambda>b. fst b \<noteq> p) (mem w))"
  by (simp add: free_def mem_call)

subsection \<open>Destruction\<close>

lemma trace_delete_obj:
  "trace (delete_obj p w) = trace w @ (if p = nullptr then [] else [Call_delete p])"
  by (simp add: delete_obj_def trace_call)

text \<open>
  Claim C1, as amended.  Destroying a wrapper whose field is not empty invokes the
  release action of its kind exactly once, on the value held.  On an empty field
  \<^verbatim>\<open>ScopedPtr\<close>, \<^verbatim>\<open>ScopedComPtr\<close> and \<^verbatim>\<open>ScopedComQIPtr\<close> invoke nothing.  The
  destructor of \<^verbatim>\<open>ScopedMem\<close>, which \<^verbatim>\<open>AutoFreeStr\<close> inherits, is an unguarded
  \<^verbatim>\<open>free(ptr)\<close>: on an empty field it still calls \<^verbatim>\<open>free\<close> once, on the null
  pointer, and that call leaves every buffer as it was.  \<^verbatim>\<open>ScopedHandle\<close>,
  \<^verbatim>\<open>ScopedGdiObj\<close> and \<^verbatim>\<open>ScopedHDC\<close> cannot be default-constructed or emptied;
  they pass whatever they were built on to their primitive once, untested.  The guards
  without an empty state (\<^verbatim>\<open>ScopedCritSec\<close>, \<^verbatim>\<open>ScopedHdcSelect\<close>, \<^verbatim>\<open>ScopedCom\<close>,
  \<^verbatim>\<open>ScopedOle\<close>, \<^verbatim>\<open>ScopedGdiPlus\<close>) make their release call once.
\<close>

theorem dtor_release_calls:
  "trace (ScopedMem_dtor m w) = trace w @ [Call_free (ScopedMem.ptr m)]
   \<and> mem (ScopedMem_dtor ScopedMem_default w) = mem w
   \<and> trace (ScopedPtr_dtor s w) =
       trace w @ (if ScopedPtr.obj s = nullptr then [] else [Call_delete (ScopedPtr.obj s)])
   \<and> trace (ScopedHandle_dtor h w) = trace w @ [Call_CloseHandle (ScopedHandle.handle h)]
   \<and> trace (ScopedGdiObj_dtor g w) = trace w @ [Call_DeleteObject (ScopedGdiObj.obj g)]
   \<and> trace (ScopedHDC_dtor d w) = trace w @ [Call_DeleteDC (ScopedHDC.hdc d)]
   \<and> trace (ScopedComPtr_dtor c w) =
       trace w @ (if ScopedComPtr.ptr c = nullptr then []
                  else [Call_Release (ScopedComPtr.ptr c)])
   \<and> trace (ScopedComQIPtr_dtor q w) =
       trace w @ (if ScopedComQIPtr.ptr q = nullptr then []
                  else [Call_Release (ScopedComQIPtr.ptr q)])
   \<and> trace (ScopedCritSec_dtor l w) =
       trace w @ [Call_LeaveCriticalSection (ScopedCritSec.cs l)]
   \<and> trace (ScopedHdcSelect_dtor x w) =
       trace w @ [Call_SelectObject (ScopedHdcSelect.hdc x) (prev x)]
   \<and> trace (ScopedCom_dtor w) = trace w @ [Call_CoUninitialize]
   \<and> trace (ScopedOle_dtor w) = trace w @ [Call_OleUninitialize]
   \<and> trace (ScopedGdiPlus_dtor p w) =
       trace w @ (if noBgThread p then [Call_NotificationUnhook (hookToken p)] else [])
               @ [Call_GdiplusShutdown (token p)]"
proof -
  have owners:
    "trace (ScopedMem_dtor m w) = trace w @ [Call_free (ScopedMem.ptr m)]"
    "mem (ScopedMem_dtor ScopedMem_default w) = mem w"
    "trace (ScopedPtr_dtor s w) =
       trace w @ (if ScopedPtr.obj s = nullptr then [] else [Call_delete (ScopedPtr.obj s)])"
    "trace (ScopedHandle_dtor h w) = trace w @ [Call_CloseHandle (ScopedHandle.handle h)]"
    "trace (ScopedGdiObj_dtor g w) = trace w @ [Call_DeleteObject (ScopedGdiObj.obj g)]"
    "trace (ScopedHDC_dtor d w) = trace w @ [Call_DeleteDC (ScopedHDC.hdc d)]"
    by (simp_all add: ScopedMem_dtor_def ScopedMem_default_def ScopedPtr_dtor_def
        ScopedHandle_dtor_def ScopedGdiObj_dtor_def ScopedHDC_dtor_def
        trace_call trace_free trace_delete_obj mem_free)
  have counted:
    "trace (ScopedComPtr_dtor c w) =
       trace w @ (if ScopedComPtr.ptr c = nullptr then []
                  else [Call_Release (ScopedComPtr.ptr c)])"
    "trace (ScopedComQIPtr_dtor q w) =
       trace w @ (if ScopedComQIPtr.ptr q = nullptr then []
                  else [Call_Release (ScopedComQIPtr.ptr q)])"
    by (simp_all add: ScopedComPtr_dtor_def ScopedComQIPtr_dtor_def trace_call)
  have guards:
    "trace (ScopedCritSec_dtor l w) =
       trace w @ [Call_LeaveCriticalSection (ScopedCritSec.cs l)]"
    "trace (ScopedHdcSelect_dtor x w) =
       trace w @ [Call_SelectObject (ScopedHdcSelect.hdc x) (prev x)]"
    "trace (ScopedCom_dtor w) = trace w @ [Call_CoUninitialize]"
    "trace (ScopedOle_dtor w) = trace w @ [Call_OleUninitialize]"
    "trace (ScopedGdiPlus_dtor p w) =
       trace w @ (if noBgThread p then [Call_NotificationUnhook (hookToken p)] else [])
               @ [Call_GdiplusShutdown (token p)]"
    by (simp_all add: ScopedCritSec_dtor_def ScopedHdcSelect_dtor_def SelectObject_def
        ScopedCom_dtor_def ScopedOle_dtor_def ScopedGdiPlus_dtor_def trace_call)
  from owners counted guards show ?thesis by (intro conjI)
qed

text \<open>
  Claim C1 as stated asks for no release call when an empty wrapper is destroyed.  A
  default-constructed \<^verbatim>\<open>ScopedMem\<close> destroyed at once does call \<^verbatim>\<open>free\<close>, on the
  null pointer: one call where the claim has none.
\<close>

theorem empty_ScopedMem_dtor_calls_free:
  "trace (ScopedMem_dtor ScopedMem_default world0) = [Call_free nullptr]"
  by (simp add: ScopedMem_dtor_def ScopedMem_default_def world0_def trace_free)

text \<open>
  Nothing at run time keeps two wrappers from holding one resource: the constructors
  take any pointer, and two \<^verbatim>\<open>ScopedMem\<close> built on the same address both free it.
  Whether a wrapper can be copied is a matter of the type rules of C++ and lies outside
  this embedding.
\<close>

lemma two_wrappers_one_resource:
  "trace (ScopedMem_dtor (ScopedMem_ctor p) (ScopedMem_dtor (ScopedMem_ctor p) w)) =
     trace w @ [Call_free p, Call_free p]"
  by (simp add: ScopedMem_dtor_def ScopedMem_ctor_def trace_free)

text \<open>
  Claim C2, as amended.  The destructor of \<^verbatim>\<open>ScopedHandle\<close> passes the held handle to
  \<^verbatim>\<open>CloseHandle\<close> exactly once whatever the handle is, \<^verbatim>\<open>INVALID_HANDLE_VALUE\<close> and
  \<^verbatim>\<open>NULL\<close> included: nothing guards the call.  The two sentinels are told apart by
  \<^verbatim>\<open>IsValid\<close> alone, which holds exactly when the handle is neither of them.
\<close>

theorem ScopedHandle_dtor_closes_whatever_it_holds:
  "trace (ScopedHandle_dtor (ScopedHandle_ctor h) w) = trace w @ [Call_CloseHandle h]
   \<and> ScopedHandle_IsValid (ScopedHandle_ctor h) = (h \<noteq> NULL \<and> h \<noteq> INVALID_HANDLE_VALUE)"
  by (simp add: ScopedHandle_dtor_def ScopedHandle_ctor_def ScopedHandle_IsValid_def trace_call)

text \<open>
  Claim C2 as stated asks that a \<^verbatim>\<open>ScopedHandle\<close> built on the invalid sentinel does not
  call the close primitive when destroyed.  It calls \<^verbatim>\<open>CloseHandle\<close> on the sentinel,
  although \<^verbatim>\<open>IsValid\<close> knows the handle to be invalid.
\<close>

theorem ScopedHandle_dtor_closes_invalid_sentinel:
  "trace (ScopedHandle_dtor (ScopedHandle_ctor INVALID_HANDLE_VALUE) world0) =
     [Call_CloseHandle INVALID_HANDLE_VALUE]
   \<and> \<not> ScopedHandle_IsValid (ScopedHandle_ctor INVALID_HANDLE_VALUE)"
  by (simp add: ScopedHandle_dtor_def ScopedHandle_ctor_def ScopedHandle_IsValid_def
      world0_def trace_call)

subsection \<open>Reassignment and detachment\<close>

text \<open>
  Claim C4, as amended.  On a non-empty owner every reassignment makes exactly one
  release call, on the value held so far, before anything new reaches the field.
  \<^verbatim>\<open>ScopedMem::Set\<close>, which \<^verbatim>\<open>AutoFreeStr\<close> inherits, and \<^verbatim>\<open>operator=(T*)\<close> of
  \<^verbatim>\<open>ScopedPtr\<close>, \<^verbatim>\<open>ScopedComPtr\<close> and \<^verbatim>\<open>ScopedComQIPtr\<close> then store their
  argument: the trace grows by the release call followed by the store, the field holds
  the new value, and the operators return it.  \<^verbatim>\<open>ScopedComQIPtr::operator=(IUnknown*)\<close>,
  given a pointer that is not null, releases and then queries through its argument; the
  owner afterwards holds the pointer the query produced, or null when the query failed,
  not the argument, and the operator returns what the owner holds.
\<close>

theorem reassign_releases_old_first:
  "(ScopedMem.ptr m \<noteq> nullptr \<longrightarrow>
      (case ScopedMem_Set m new w of
         (m1, w1) \<Rightarrow>
           ScopedMem.ptr m1 = new
           \<and> trace w1 = trace w @ [Call_free (ScopedMem.ptr m), Store new]))
   \<and> (ScopedPtr.obj s \<noteq> nullptr \<longrightarrow>
      (case ScopedPtr_assign s new w of
         (r, s1, w1) \<Rightarrow>
           r = new \<and> ScopedPtr.obj s1 = new
           \<and> trace w1 = trace w @ [Call_delete (ScopedPtr.obj s), Store new]))
   \<and> (ScopedComPtr.ptr c \<noteq> nullptr \<longrightarrow>
      (case ScopedComPtr_assign c new w of
         (r, c1, w1) \<Rightarrow>
           r = new \<and> ScopedComPtr.ptr c1 = new
           \<and> trace w1 = trace w @ [Call_Release (ScopedComPtr.ptr c), Store new]))
   \<and> (ScopedComQIPtr.ptr q \<noteq> nullptr \<longrightarrow>
      (case ScopedComQIPtr_assign q new w of
         (r, q1, w1) \<Rightarrow>
           r = new \<and> ScopedComQIPtr.ptr q1 = new
           \<and> trace w1 = trace w @ [Call_Release (ScopedComQIPtr.ptr q), Store new]))
   \<and> (ScopedComQIPtr.ptr q \<noteq> nullptr \<and> newUnk \<noteq> nullptr \<longrightarrow>
      (case ScopedComQIPtr_assign_unk pf q newUnk w of
         Inl f \<Rightarrow> False
       | Inr (r, q1, w1) \<Rightarrow>
           r = ScopedComQIPtr.ptr q1
           \<and> ScopedComQIPtr.ptr q1 =
               (if FAILED (fst (QueryInterface_out pf newUnk)) then nullptr
                else snd (QueryInterface_out pf newUnk))
           \<and> trace w1 =
               trace w @ [Call_Release (ScopedComQIPtr.ptr q), Call_QueryInterface newUnk]
               @ (if FAILED (fst (QueryInterface_out pf newUnk)) then [Store nullptr]
                  else [])))"
proof -
  have stores:
    "ScopedMem.ptr m \<noteq> nullptr \<longrightarrow>
      (case ScopedMem_Set m new w of
         (m1, w1) \<Rightarrow>
           ScopedMem.ptr m1 = new
           \<and> trace w1 = trace w @ [Call_free (ScopedMem.ptr m), Store new])"
    "ScopedPtr.obj s \<noteq> nullptr \<longrightarrow>
      (case ScopedPtr_assign s new w of
         (r, s1, w1) \<Rightarrow>
           r = new \<and> ScopedPtr.obj s1 = new
           \<and> trace w1 = trace w @ [Call_delete (ScopedPtr.obj s), Store new])"
    "ScopedComPtr.ptr c \<noteq> nullptr \<longrightarrow>
      (case ScopedComPtr_assign c new w of
         (r, c1, w1) \<Rightarrow>
           r = new \<and> ScopedComPtr.ptr c1 = new
           \<and> trace w1 = trace w @ [Call_Release (ScopedComPtr.ptr c), Store new])"
    "ScopedComQIPtr.ptr q \<noteq> nullptr \<longrightarrow>
      (case ScopedComQIPtr_assign q new w of
         (r, q1, w1) \<Rightarrow>
           r = new \<and> ScopedComQIPtr.ptr q1 = new
           \<and> trace w1 = trace w @ [Call_Release (ScopedComQIPtr.ptr q), Store new])"
    by (simp_all add: ScopedMem_Set_def ScopedPtr_assign_def ScopedComPtr_assign_def
        ScopedComQIPtr_assign_def Let_def trace_call trace_free trace_delete_obj)
  have queries:
    "ScopedComQIPtr.ptr q \<noteq> nullptr \<and> newUnk \<noteq> nullptr \<longrightarrow>
      (case ScopedComQIPtr_assign_unk pf q newUnk w of
         Inl f \<Rightarrow> False
       | Inr (r, q1, w1) \<Rightarrow>
           r = ScopedComQIPtr.ptr q1
           \<and> ScopedComQIPtr.ptr q1 =
               (if FAILED (fst (QueryInterface_out pf newUnk)) then nullptr
                else snd (QueryInterface_out pf newUnk))
           \<and> trace w1 =
               trace w @ [Call_Release (ScopedComQIPtr.ptr q), Call_QueryInterface newUnk]
               @ (if FAILED (fst (QueryInterface_out pf newUnk)) then [Store nullptr]
                  else []))"
    by (simp add: ScopedComQIPtr_assign_unk_def Let_def trace_call split: prod.splits)
  from stores queries show ?thesis by (intro conjI)
qed

text \<open>
  The owners, each holding the resource at address 5, are given the one at 7; the
  querying owner is also assigned the interface pointer 6, whose query yields 9.
\<close>

theorem reassign_witness:
  "ScopedMem_Set (ScopedMem_ctor 5) 7 world0 =
     (ScopedMem_ctor 7, world0\<lparr>trace := [Call_free 5, Store 7]\<rparr>)
   \<and> ScopedPtr_assign (ScopedPtr_ctor 5) 7 world0 =
       (7, ScopedPtr_ctor 7, world0\<lparr>trace := [Call_delete 5, Store 7]\<rparr>)
   \<and> ScopedComPtr_assign (ScopedComPtr_ctor 5) 7 world0 =
       (7, ScopedComPtr_ctor 7, world0\<lparr>trace := [Call_Release 5, Store 7]\<rparr>)
   \<and> ScopedComQIPtr_assign \<lparr>ScopedComQIPtr.ptr = 5\<rparr> 7 world0 =
       (7, \<lparr>ScopedComQIPtr.ptr = 7\<rparr>, world0\<lparr>trace := [Call_Release 5, Store 7]\<rparr>)
   \<and> ScopedComQIPtr_assign_unk platform_querying \<lparr>ScopedComQIPtr.ptr = 5\<rparr> 6 world0 =
       Inr (9, \<lparr>ScopedComQIPtr.ptr = 9\<rparr>,
            world0\<lparr>trace := [Call_Release 5, Call_QueryInterface 6]\<rparr>)"
  using reassign_releases_old_first
    [of "ScopedMem_ctor 5" 7 world0 "ScopedPtr_ctor 5" "ScopedComPtr_ctor 5"
        "\<lparr>ScopedComQIPtr.ptr = 5\<rparr>" 6 platform_querying]
  by (simp add: ScopedMem_Set_def ScopedPtr_assign_def ScopedComPtr_assign_def
      ScopedComQIPtr_assign_def ScopedComQIPtr_assign_unk_def ScopedMem_ctor_def
      ScopedPtr_ctor_def ScopedComPtr_ctor_def platform_querying_def platform_ok_def
      FAILED_def Let_def call_def free_def delete_obj_def world0_def)

text \<open>
  Claim C4 as stated has every reassigned owner hold exactly the new value.  A querying
  owner holding address 5 that is assigned the interface pointer 6 releases 5 once and
  queries; where the query fails it ends up empty, and where it succeeds it holds the
  queried pointer 9.  In neither case does it hold 6.
\<close>

theorem assign_unk_does_not_hold_argument:
  "ScopedComQIPtr_assign_unk platform_ok \<lparr>ScopedComQIPtr.ptr = 5\<rparr> 6 world0 =
     Inr (nullptr, \<lparr>ScopedComQIPtr.ptr = nullptr\<rparr>,
          world0\<lparr>trace := [Call_Release 5, Call_QueryInterface 6, Store nullptr]\<rparr>)
   \<and> ScopedComQIPtr_assign_unk platform_querying \<lparr>ScopedComQIPtr.ptr = 5\<rparr> 6 world0 =
       Inr (9, \<lparr>ScopedComQIPtr.ptr = 9\<rparr>,
            world0\<lparr>trace := [Call_Release 5, Call_QueryInterface 6]\<rparr>)"
  by (simp add: ScopedComQIPtr_assign_unk_def platform_querying_def platform_ok_def
      E_NOINTERFACE_def FAILED_def Let_def call_def world0_def)

text \<open>
  Claim C5, as amended.  \<^verbatim>\<open>StealData\<close> and \<^verbatim>\<open>Detach\<close> return exactly the value
  that was held, leave the field null and invoke no release action.  Destroying a
  \<^verbatim>\<open>ScopedPtr\<close> after \<^verbatim>\<open>Detach\<close> invokes nothing.  Destroying a \<^verbatim>\<open>ScopedMem\<close>
  (or \<^verbatim>\<open>AutoFreeStr\<close>) after \<^verbatim>\<open>StealData\<close> makes one call of \<^verbatim>\<open>free\<close>, on the null
  pointer: the value handed out is not passed to \<^verbatim>\<open>free\<close>, and no buffer changes.
\<close>

theorem steal_returns_held_and_empties:
  "(case ScopedMem_StealData m w of
      (r, m1, w1) \<Rightarrow>
        r = ScopedMem.ptr m \<and> ScopedMem.ptr m1 = nullptr
        \<and> trace w1 = trace w @ [Store nullptr] \<and> mem w1 = mem w
        \<and> trace (ScopedMem_dtor m1 w1) = trace w1 @ [Call_free nullptr]
        \<and> mem (ScopedMem_dtor m1 w1) = mem w)
   \<and> (case ScopedPtr_Detach s w of
      (r, s1, w1) \<Rightarrow>
        r = ScopedPtr.obj s \<and> ScopedPtr.obj s1 = nullptr
        \<and> trace w1 = trace w @ [Store nullptr]
        \<and> ScopedPtr_dtor s1 w1 = w1)"
  by (simp add: ScopedMem_StealData_def ScopedPtr_Detach_def ScopedMem_dtor_def
      ScopedPtr_dtor_def delete_obj_def Let_def trace_call trace_free mem_call mem_free)

text \<open>
  Claim C5 as stated asks for no release call when the wrapper is destroyed after the
  steal.  A \<^verbatim>\<open>ScopedMem\<close> holding address 5 whose data was stolen still calls
  \<^verbatim>\<open>free\<close> when destroyed, on the null pointer: the trace ends with that call.
\<close>

theorem dtor_after_StealData_calls_free:
  "(case ScopedMem_StealData (ScopedMem_ctor 5) world0 of
      (r, m1, w1) \<Rightarrow> (r, trace (ScopedMem_dtor m1 w1))) =
     (5, [Store nullptr, Call_free nullptr])"
  by (simp add: ScopedMem_StealData_def ScopedMem_ctor_def ScopedMem_dtor_def Let_def
      world0_def trace_call trace_free)

subsection \<open>The duplicating string owner\<close>

lemma fold_max_ge: "a \<le> fold max xs (a::nat)"
  by (induction xs arbitrary: a) (auto intro: order_trans [OF max.cobounded2])

lemma fold_max_mem: "x \<in> set xs \<Longrightarrow> x \<le> fold max xs (a::nat)"
proof (induction xs arbitrary: a)
  case Nil
  then show ?case by simp
next
  case (Cons y ys)
  show ?case
  proof (cases "x = y")
    case True
    have "y \<le> max y a" by simp
    also have "\<dots> \<le> fold max ys (max y a)" by (rule fold_max_ge)
    finally show ?thesis using True by simp
  next
    case False
    with Cons.prems have "x \<in> set ys" by simp
    then show ?thesis using Cons.IH by simp
  qed
qed

lemma fresh_not_null: "fresh m \<noteq> nullptr"
  by (simp add: fresh_def)

lemma fresh_unused: "fresh m \<notin> fst ` set m"
proof
  assume "fresh m \<in> fst ` set m"
  then have "fresh m \<in> set (map fst m)" by simp
  then have "fresh m \<le> fold max (map fst m) 0" by (rule fold_max_mem)
  then show False by (simp add: fresh_def)
qed

lemma map_of_filter_other:
  "k \<noteq> p \<Longrightarrow> map_of (filter (\<lambda>b. fst b \<noteq> p) m) k = map_of m k"
  by (induction m) auto

lemma map_of_filter_same: "map_of (filter (\<lambda>b. fst b \<noteq> p) m) p = None"
  by (induction m) auto

lemma map_of_after_free:
  "map_of (mem (free p w)) k = (if p \<noteq> nullptr \<and> k = p then None else map_of (mem w) k)"
  by (simp add: mem_free map_of_filter_other map_of_filter_same)

lemma Dup_readable:
  assumes "map_of (mem w) s = Some str"
  shows "Dup s w =
           Inr (fresh (mem w), call (Call_Dup s) (w\<lparr>mem := (fresh (mem w), str) # mem w\<rparr>))"
  using assms by (simp add: Dup_def Let_def)

lemma SetCopy_of_readable:
  assumes "newPtr \<noteq> nullptr" and "map_of (mem w) newPtr = Some str"
    and "newPtr \<noteq> ScopedMem.ptr a"
  shows "AutoFreeStr_SetCopy a newPtr w =
           Inr (a\<lparr>ScopedMem.ptr := fresh (mem (free (ScopedMem.ptr a) w))\<rparr>,
                call (Store (fresh (mem (free (ScopedMem.ptr a) w))))
                  (call (Call_Dup newPtr)
                     ((call (Store nullptr) (free (ScopedMem.ptr a) w))
                        \<lparr>mem := (fresh (mem (free (ScopedMem.ptr a) w)), str)
                                 # mem (free (ScopedMem.ptr a) w)\<rparr>)))"
proof -
  let ?w2 = "call (Store nullptr) (free (ScopedMem.ptr a) w)"
  have m2: "mem ?w2 = mem (free (ScopedMem.ptr a) w)"
    by (simp add: mem_call)
  have "map_of (mem ?w2) newPtr = Some str"
    using assms by (simp add: m2 map_of_after_free)
  then have "Dup newPtr ?w2 =
      Inr (fresh (mem ?w2),
           call (Call_Dup newPtr) (?w2\<lparr>mem := (fresh (mem ?w2), str) # mem ?w2\<rparr>))"
    by (rule Dup_readable)
  then show ?thesis
    using assms(1) by (simp add: AutoFreeStr_SetCopy_def Let_def m2)
qed

text \<open>
  Claim C6, as amended.  \<^verbatim>\<open>SetCopy\<close> tests its argument against the null pointer:
  the empty borrowed text of the claim is the null pointer, and a pointer to text of
  length zero is duplicated like any other.  In both cases the current buffer is passed
  to \<^verbatim>\<open>free\<close> first and the field is nulled.  On the null pointer nothing else
  happens and the wrapper is left empty.  On a pointer to text that can still be read
  once the current buffer is gone, that is, readable text other than the wrapper's own
  buffer, the wrapper ends up holding a pointer that is not null, differs from the
  borrowed one, was not in use when the copy was made, and holds the same text; the
  borrowed text is still in place, and freeing it afterwards leaves the wrapper's copy
  as it is.
\<close>

theorem SetCopy_releases_then_duplicates:
  "AutoFreeStr_SetCopy a nullptr w =
     Inr (a\<lparr>ScopedMem.ptr := nullptr\<rparr>, call (Store nullptr) (free (ScopedMem.ptr a) w))
   \<and> (newPtr \<noteq> nullptr \<and> map_of (mem w) newPtr = Some str \<and> newPtr \<noteq> ScopedMem.ptr a \<longrightarrow>
      (case AutoFreeStr_SetCopy a newPtr w of
         Inl f \<Rightarrow> False
       | Inr (a1, w1) \<Rightarrow>
           ScopedMem.ptr a1 \<noteq> nullptr
           \<and> ScopedMem.ptr a1 \<noteq> newPtr
           \<and> ScopedMem.ptr a1 \<notin> fst ` set (mem (free (ScopedMem.ptr a) w))
           \<and> map_of (mem w1) (ScopedMem.ptr a1) = Some str
           \<and> map_of (mem w1) newPtr = Some str
           \<and> map_of (mem (free newPtr w1)) (ScopedMem.ptr a1) = Some str
           \<and> trace w1 = trace w @ [Call_free (ScopedMem.ptr a), Store nullptr,
                                    Call_Dup newPtr, Store (ScopedMem.ptr a1)]))"
proof (intro conjI impI)
  show "AutoFreeStr_SetCopy a nullptr w =
     Inr (a\<lparr>ScopedMem.ptr := nullptr\<rparr>, call (Store nullptr) (free (ScopedMem.ptr a) w))"
    by (simp add: AutoFreeStr_SetCopy_def Let_def)
next
  assume pre: "newPtr \<noteq> nullptr \<and> map_of (mem w) newPtr = Some str \<and> newPtr \<noteq> ScopedMem.ptr a"
  let ?m = "mem (free (ScopedMem.ptr a) w)"
  let ?q = "fresh ?m"
  from pre have src: "map_of ?m newPtr = Some str"
    by (simp add: map_of_after_free)
  have q0: "?q \<noteq> nullptr"
    by (rule fresh_not_null)
  have qm: "?q \<notin> fst ` set ?m"
    by (rule fresh_unused)
  have qsrc: "?q \<noteq> newPtr"
  proof
    assume "?q = newPtr"
    with src have "map_of ?m ?q = Some str" by simp
    then have "?q \<in> fst ` set ?m"
      by (metis map_of_eq_None_iff option.distinct(1))
    with qm show False by contradiction
  qed
  show "case AutoFreeStr_SetCopy a newPtr w of
         Inl f \<Rightarrow> False
       | Inr (a1, w1) \<Rightarrow>
           ScopedMem.ptr a1 \<noteq> nullptr
           \<and> ScopedMem.ptr a1 \<noteq> newPtr
           \<and> ScopedMem.ptr a1 \<notin> fst ` set (mem (free (ScopedMem.ptr a) w))
           \<and> map_of (mem w1) (ScopedMem.ptr a1) = Some str
           \<and> map_of (mem w1) newPtr = Some str
           \<and> map_of (mem (free newPtr w1)) (ScopedMem.ptr a1) = Some str
           \<and> trace w1 = trace w @ [Call_free (ScopedMem.ptr a), Store nullptr,
                                    Call_Dup newPtr, Store (ScopedMem.ptr a1)]"
    using pre q0 qsrc qm src
    by (simp add: SetCopy_of_readable [of newPtr w str a] mem_call trace_call trace_free
        map_of_after_free)
qed

text \<open>
  A wrapper holding the buffer at address 2 copies the text at address 3: the buffer at 2
  is freed and the copy is made at the unused address 4.
\<close>

theorem SetCopy_witness:
  "AutoFreeStr_SetCopy (AutoFreeStr_ctor 2) 3 (world0\<lparr>mem := [(3, ''abc''), (2, ''old'')]\<rparr>) =
     Inr (AutoFreeStr_ctor 4,
          world0\<lparr>trace := [Call_free 2, Store nullptr, Call_Dup 3, Store 4],
                 mem := [(4, ''abc''), (3, ''abc'')]\<rparr>)"
  using SetCopy_releases_then_duplicates
    [of "AutoFreeStr_ctor 2" "world0\<lparr>mem := [(3, ''abc''), (2, ''old'')]\<rparr>" 3 "''abc''"]
  by (simp add: AutoFreeStr_SetCopy_def AutoFreeStr_ctor_def ScopedMem_default_def Dup_def
      fresh_def free_def call_def world0_def Let_def)

text \<open>
  Handed its own buffer, \<^verbatim>\<open>SetCopy\<close> frees it before \<^verbatim>\<open>str::Dup\<close> reads it.
\<close>

lemma SetCopy_of_own_buffer:
  "ScopedMem.ptr a \<noteq> nullptr \<Longrightarrow>
     AutoFreeStr_SetCopy a (ScopedMem.ptr a) w = Inl InvalidRead"
  by (simp add: AutoFreeStr_SetCopy_def Dup_def Let_def mem_call map_of_after_free)

text \<open>
  Claim C6 as stated has \<^verbatim>\<open>SetCopy\<close> store a fresh copy for every borrowed text that
  is not empty.  A wrapper holding the text at address 2 that is asked to copy the text
  at address 2 stores no copy: the text is freed first, and the read of it faults.
\<close>

theorem SetCopy_own_buffer_stores_no_copy:
  "map_of (mem (world0\<lparr>mem := [(2, ''old'')]\<rparr>)) 2 = Some ''old''
   \<and> AutoFreeStr_SetCopy (AutoFreeStr_ctor 2) 2 (world0\<lparr>mem := [(2, ''old'')]\<rparr>) =
       Inl InvalidRead"
  by (simp add: AutoFreeStr_SetCopy_def AutoFreeStr_ctor_def ScopedMem_default_def Dup_def
      free_def call_def world0_def Let_def)

subsection \<open>The reference-counted owners\<close>

text \<open>
  Claim C7.  When the querying constructor is given an interface pointer whose query
  fails, it returns normally with an empty owner: the field is null whatever the query
  left in the slot, and destroying that owner makes no call.
\<close>

theorem failed_query_leaves_owner_empty:
  "unk \<noteq> nullptr \<and> FAILED (fst (QueryInterface_out pf unk)) \<longrightarrow>
     ScopedComQIPtr_ctor pf unk w =
       Inr (ScopedComQIPtr_default, call (Call_QueryInterface unk) w)
     \<and> ScopedComQIPtr_dtor ScopedComQIPtr_default (call (Call_QueryInterface unk) w) =
         call (Call_QueryInterface unk) w"
  by (simp add: ScopedComQIPtr_ctor_def ScopedComQIPtr_default_def ScopedComQIPtr_dtor_def
      Let_def split: prod.splits)

text \<open>The object at address 5 lacks the interface; its query leaves 9 in the slot.\<close>

theorem failed_query_witness:
  "ScopedComQIPtr_ctor platform_ok 5 world0 =
     Inr (ScopedComQIPtr_default, world0\<lparr>trace := [Call_QueryInterface 5]\<rparr>)
   \<and> ScopedComQIPtr_dtor ScopedComQIPtr_default (world0\<lparr>trace := [Call_QueryInterface 5]\<rparr>) =
       world0\<lparr>trace := [Call_QueryInterface 5]\<rparr>"
  using failed_query_leaves_owner_empty [of 5 platform_ok world0]
  by (simp add: platform_ok_def E_NOINTERFACE_def FAILED_def call_def world0_def)

lemma FAILED_iff_not_SUCCEEDED: "FAILED hr = (\<not> SUCCEEDED hr)"
  by (auto simp: FAILED_def SUCCEEDED_def)

text \<open>
  Claim C8, as amended.  \<^verbatim>\<open>Create\<close> of both reference-counted owners starts with
  the assertion \<^verbatim>\<open>CrashIf(ptr)\<close> and the test \<^verbatim>\<open>if (ptr) return false;\<close>.  On an
  occupied slot it never attempts the instantiation: where a tripped \<^verbatim>\<open>CrashIf\<close> ends
  the program the call is fatal, and where \<^verbatim>\<open>CrashIf\<close> returns, \<^verbatim>\<open>Create\<close> returns
  false and leaves slot and world as they were.  On an empty slot \<^verbatim>\<open>Create\<close> makes
  one call of \<^verbatim>\<open>CoCreateInstance\<close> on the address of the slot and returns whether it
  succeeded; the slot then holds whatever that call wrote there, as \<^verbatim>\<open>Create\<close> itself
  never writes the slot, neither on success nor on failure.
\<close>

theorem Create_asserts_then_instantiates:
  "(CrashIf_fatal pf \<and> ScopedComPtr.ptr c \<noteq> nullptr \<longrightarrow>
      ScopedComPtr_Create pf c clsid w = Inl AssertionFailure)
   \<and> (\<not> CrashIf_fatal pf \<and> ScopedComPtr.ptr c \<noteq> nullptr \<longrightarrow>
      ScopedComPtr_Create pf c clsid w = Inr (False, c, w))
   \<and> (ScopedComPtr.ptr c = nullptr \<longrightarrow>
      ScopedComPtr_Create pf c clsid w =
        Inr (SUCCEEDED (fst (CoCreateInstance_out pf clsid)),
             c\<lparr>ScopedComPtr.ptr := snd (CoCreateInstance_out pf clsid)\<rparr>,
             call (Call_CoCreateInstance clsid) w))
   \<and> (CrashIf_fatal pf \<and> ScopedComQIPtr.ptr q \<noteq> nullptr \<longrightarrow>
      ScopedComQIPtr_Create pf q clsid w = Inl AssertionFailure)
   \<and> (\<not> CrashIf_fatal pf \<and> ScopedComQIPtr.ptr q \<noteq> nullptr \<longrightarrow>
      ScopedComQIPtr_Create pf q clsid w = Inr (False, q, w))
   \<and> (ScopedComQIPtr.ptr q = nullptr \<longrightarrow>
      ScopedComQIPtr_Create pf q clsid w =
        Inr (SUCCEEDED (fst (CoCreateInstance_out pf clsid)),
             q\<lparr>ScopedComQIPtr.ptr := snd (CoCreateInstance_out pf clsid)\<rparr>,
             call (Call_CoCreateInstance clsid) w))"
  by (simp add: ScopedComPtr_Create_def ScopedComQIPtr_Create_def CrashIf_def
      split: prod.splits)

text \<open>
  \<^verbatim>\<open>Create\<close> on owners holding address 5 where \<^verbatim>\<open>CrashIf\<close> is fatal and where it
  returns, then on empty owners where the instantiation succeeds and where it fails.
\<close>

theorem Create_witness:
  "ScopedComPtr_Create platform_ok (ScopedComPtr_ctor 5) 77 world0 = Inl AssertionFailure
   \<and> ScopedComQIPtr_Create platform_ok \<lparr>ScopedComQIPtr.ptr = 5\<rparr> 77 world0 =
       Inl AssertionFailure
   \<and> ScopedComPtr_Create platform_lenient (ScopedComPtr_ctor 5) 77 world0 =
       Inr (False, ScopedComPtr_ctor 5, world0)
   \<and> ScopedComQIPtr_Create platform_lenient \<lparr>ScopedComQIPtr.ptr = 5\<rparr> 77 world0 =
       Inr (False, \<lparr>ScopedComQIPtr.ptr = 5\<rparr>, world0)
   \<and> ScopedComPtr_Create platform_ok ScopedComPtr_default 77 world0 =
       Inr (True, ScopedComPtr_ctor 11, world0\<lparr>trace := [Call_CoCreateInstance 77]\<rparr>)
   \<and> ScopedComQIPtr_Create platform_ok ScopedComQIPtr_default 77 world0 =
       Inr (True, \<lparr>ScopedComQIPtr.ptr = 11\<rparr>,
            world0\<lparr>trace := [Call_CoCreateInstance 77]\<rparr>)
   \<and> ScopedComPtr_Create platform_failing ScopedComPtr_default 77 world0 =
       Inr (False, ScopedComPtr_default, world0\<lparr>trace := [Call_CoCreateInstance 77]\<rparr>)
   \<and> ScopedComQIPtr_Create platform_failing ScopedComQIPtr_default 77 world0 =
       Inr (False, ScopedComQIPtr_default, world0\<lparr>trace := [Call_CoCreateInstance 77]\<rparr>)"
  using Create_asserts_then_instantiates
          [of platform_ok "ScopedComPtr_ctor 5" 77 world0 "\<lparr>ScopedComQIPtr.ptr = 5\<rparr>"]
        Create_asserts_then_instantiates
          [of platform_lenient "ScopedComPtr_ctor 5" 77 world0 "\<lparr>ScopedComQIPtr.ptr = 5\<rparr>"]
        Create_asserts_then_instantiates
          [of platform_ok ScopedComPtr_default 77 world0 ScopedComQIPtr_default]
        Create_asserts_then_instantiates
          [of platform_failing ScopedComPtr_default 77 world0 ScopedComQIPtr_default]
  by (simp add: platform_ok_def platform_lenient_def platform_failing_def E_NOINTERFACE_def
      SUCCEEDED_def ScopedComPtr_ctor_def ScopedComPtr_default_def
      ScopedComQIPtr_default_def call_def world0_def)

text \<open>
  Claim C8 as stated makes \<^verbatim>\<open>Create\<close> on an occupied slot a fatal assertion and never
  a recoverable error value.  Where a tripped \<^verbatim>\<open>CrashIf\<close> returns, the statement
  \<^verbatim>\<open>if (ptr) return false;\<close> that follows it hands the caller exactly such a value:
  \<^verbatim>\<open>Create\<close> on an owner holding address 5 returns false and changes nothing.
\<close>

theorem Create_on_occupied_returns_false:
  "ScopedComPtr.ptr (ScopedComPtr_ctor 5) \<noteq> nullptr
   \<and> ScopedComPtr_Create platform_lenient (ScopedComPtr_ctor 5) 77 world0 =
       Inr (False, ScopedComPtr_ctor 5, world0)
   \<and> ScopedComQIPtr_Create platform_lenient \<lparr>ScopedComQIPtr.ptr = 5\<rparr> 77 world0 =
       Inr (False, \<lparr>ScopedComQIPtr.ptr = 5\<rparr>, world0)"
  by (simp add: ScopedComPtr_Create_def ScopedComQIPtr_Create_def CrashIf_def
      platform_lenient_def platform_ok_def ScopedComPtr_ctor_def)

text \<open>
  Claim C10.  The querying constructor and the assignment from an unrelated interface
  call \<^verbatim>\<open>QueryInterface\<close> through the pointer they are given without testing it.  On
  the null pointer both end in a null dereference, and the null pointer is the only
  argument on which they do not run to their end.
\<close>

theorem null_interface_is_dereferenced:
  "ScopedComQIPtr_ctor pf nullptr w = Inl NullDereference
   \<and> ScopedComQIPtr_assign_unk pf q nullptr w = Inl NullDereference
   \<and> isl (ScopedComQIPtr_ctor pf unk w) = (unk = nullptr)
   \<and> isl (ScopedComQIPtr_assign_unk pf q unk w) = (unk = nullptr)"
  by (simp add: ScopedComQIPtr_ctor_def ScopedComQIPtr_assign_unk_def Let_def
      split: prod.splits)

text \<open>
  On a pointer that is not null the assignment releases what the owner holds, if
  anything, before it queries, and nulls the field when the query fails.
\<close>

lemma assign_unk_releases_then_queries:
  "newUnk \<noteq> nullptr \<longrightarrow>
     (case ScopedComQIPtr_assign_unk pf q newUnk w of
        Inl f \<Rightarrow> False
      | Inr (r, q1, w1) \<Rightarrow>
          r = ScopedComQIPtr.ptr q1
          \<and> ScopedComQIPtr.ptr q1 =
              (if FAILED (fst (QueryInterface_out pf newUnk)) then nullptr
               else snd (QueryInterface_out pf newUnk))
          \<and> trace w1 =
              trace w
              @ (if ScopedComQIPtr.ptr q = nullptr then []
                 else [Call_Release (ScopedComQIPtr.ptr q)])
              @ [Call_QueryInterface newUnk]
              @ (if FAILED (fst (QueryInterface_out pf newUnk)) then [Store nullptr] else []))"
  by (simp add: ScopedComQIPtr_assign_unk_def Let_def trace_call split: prod.splits)

subsection \<open>The selection guard\<close>

text \<open>
  Claim C9.  Constructing a \<^verbatim>\<open>ScopedHdcSelect\<close> selects the given object into the
  context and records the object that was selected before; destroying it selects
  exactly the recorded object again.  So two guards nested on one context undo their
  selections in reverse order: when the inner guard ends the outer guard's object is
  selected again, and when the outer guard ends the selection of every context is what
  it was before either guard.
\<close>

theorem select_guard_restores:
  "(case ScopedHdcSelect_ctor h a w of
      (g, w1) \<Rightarrow>
        ScopedHdcSelect.hdc g = h \<and> prev g = selected w h
        \<and> selected w1 = (selected w)(h := a)
        \<and> trace w1 = trace w @ [Call_SelectObject h a]
        \<and> trace (ScopedHdcSelect_dtor g w2) = trace w2 @ [Call_SelectObject h (selected w h)]
        \<and> selected (ScopedHdcSelect_dtor g w2) = (selected w2)(h := selected w h))
   \<and> (case ScopedHdcSelect_ctor h a w of
      (g1, w1) \<Rightarrow>
        (case ScopedHdcSelect_ctor h b w1 of
           (g2, w2) \<Rightarrow>
             prev g1 = selected w h \<and> prev g2 = a
             \<and> selected w2 h = b
             \<and> selected (ScopedHdcSelect_dtor g2 w2) h = a
             \<and> selected (ScopedHdcSelect_dtor g1 (ScopedHdcSelect_dtor g2 w2)) = selected w
             \<and> trace (ScopedHdcSelect_dtor g1 (ScopedHdcSelect_dtor g2 w2)) =
                 trace w @ [Call_SelectObject h a, Call_SelectObject h b,
                            Call_SelectObject h a, Call_SelectObject h (selected w h)]))"
  by (simp add: ScopedHdcSelect_ctor_def ScopedHdcSelect_dtor_def SelectObject_def
      trace_call selected_call)

end
